theory Spec2Isabelle
  imports Main "HOL-Library.Word"
begin

unbundle bit_operations_syntax

section \<open>HTTP helpers of the extension command (pkg/cmd/extension/http.go)\<close>

subsection \<open>Data model\<close>

text \<open>
  A repository identifier (\<open>ghrepo.Interface\<close>): the three accessors of the interface are
  the three fields.
\<close>

record repo =
  RepoHost :: string
  RepoOwner :: string
  RepoName :: string

text \<open>The two structs of the file. Strings are byte sequences, as Go strings are.\<close>

record releaseAsset =
  Name :: string
  APIURL :: string

record release =
  Tag :: string
  Assets :: "releaseAsset list"

text \<open>
  An HTTP request as the file builds it (method, URL, headers set so far) and the part of
  a response the file reads: the status code and the body stream. The stream delivers the
  bytes \<open>Body\<close> and then either ends (\<open>BodyErr = None\<close>) or breaks with a read error.
\<close>

record request =
  Method :: string
  URL :: string
  Header :: "(string \<times> string) list"

record response =
  StatusCode :: int
  Body :: string
  BodyErr :: "string option"

text \<open>
  Go's \<open>error\<close> values. The two sentinels of the file are constants of their own; every
  other error carries what produced it. A nil error is \<open>None\<close> of \<open>error option\<close>.
\<close>

datatype error =
    releaseNotFoundErr
  | commitNotFoundErr
  | URLError string
  | TransportError string
  | HTTPError int string
  | ReadError string
  | SyntaxError
  | UnmarshalTypeError string
  | PathError string
  | WriteError string

text \<open>A decoded JSON document, object members in document order (duplicates kept).\<close>

datatype json =
    JNull
  | JBool bool
  | JNumber string
  | JString string
  | JArray "json list"
  | JObject "(string \<times> json) list"

text \<open>
  What the file takes from outside itself: the REST prefix of a host
  (\<open>ghinstance.RESTPrefix\<close>), the URLs that \<open>url.Parse\<close> rejects for a reason other than
  a control character, the message that the error-translation helper extracts from a
  response, and the syntax layer of \<open>encoding/json\<close> (\<open>None\<close> for a malformed document).
\<close>

record env =
  RESTPrefix :: "string \<Rightarrow> string"
  url_parse_error :: "string \<Rightarrow> string option"
  api_message :: "response \<Rightarrow> string"
  json_parse :: "string \<Rightarrow> json option"

text \<open>
  The caller's HTTP client: how the network answers a request (a transport failure or a
  response) and the requests performed through it so far, oldest first.
\<close>

record client =
  RoundTrip :: "request \<Rightarrow> string + response"
  sent :: "request list"

subsection \<open>Library calls\<close>

definition isCTL :: "char \<Rightarrow> bool" where
  "isCTL c = ((of_char c :: nat) < 32 \<or> (of_char c :: nat) = 127)"

text \<open>
  \<open>http.NewRequest(method, url, nil)\<close>: fails when the URL does not parse; the new request
  has no header. \<open>url.Parse\<close> cuts the fragment off at the first \<open>#\<close> and refuses what is
  before it when that holds an ASCII control character; its other refusals are
  \<open>url_parse_error\<close>.
\<close>

definition NewRequest :: "env \<Rightarrow> string \<Rightarrow> string \<Rightarrow> error + request" where
  "NewRequest e method url =
     (if list_ex isCTL (takeWhile (\<lambda>c. c \<noteq> CHR ''#'') url)
      then Inl (URLError ''net/url: invalid control character in URL'')
      else case url_parse_error e url of
             Some m \<Rightarrow> Inl (URLError m)
           | None \<Rightarrow> Inr \<lparr>Method = method, URL = url, Header = []\<rparr>)"

text \<open>\<open>req.Header.Set(k, v)\<close>: replaces the values of the key.\<close>

definition Header_Set :: "request \<Rightarrow> string \<Rightarrow> string \<Rightarrow> request" where
  "Header_Set req k v = req\<lparr>Header := filter (\<lambda>p. fst p \<noteq> k) (Header req) @ [(k, v)]\<rparr>"

text \<open>\<open>httpClient.Do(req)\<close>: the request goes out and is answered.\<close>

definition Do :: "client \<Rightarrow> request \<Rightarrow> (error + response) \<times> client" where
  "Do c req =
     (case RoundTrip c req of
        Inl m \<Rightarrow> (Inl (TransportError m), c\<lparr>sent := sent c @ [req]\<rparr>)
      | Inr resp \<Rightarrow> (Inr resp, c\<lparr>sent := sent c @ [req]\<rparr>))"

text \<open>
  Modelled from the spec: \<open>api.HandleHTTPError\<close> is not in the file. The spec has it turn a
  response into a structured API error carrying the status code and any error message
  embedded in the response body.
\<close>

definition HandleHTTPError :: "env \<Rightarrow> response \<Rightarrow> error" where
  "HandleHTTPError e resp = HTTPError (StatusCode resp) (api_message e resp)"

text \<open>\<open>ioutil.ReadAll(resp.Body)\<close>: the bytes, or the error that broke the stream.\<close>

definition ReadAll :: "response \<Rightarrow> error + string" where
  "ReadAll resp = (case BodyErr resp of Some m \<Rightarrow> Inl (ReadError m) | None \<Rightarrow> Inr (Body resp))"

subsection \<open>hasScript\<close>

definition hasScript :: "env \<Rightarrow> client \<Rightarrow> repo \<Rightarrow> (bool \<times> error option) \<times> client" where
  "hasScript e httpClient repo =
     (let path = ''repos/'' @ RepoOwner repo @ ''/'' @ RepoName repo @ ''/contents/'' @ RepoName repo;
          url = RESTPrefix e (RepoHost repo) @ path
      in case NewRequest e ''GET'' url of
           Inl err \<Rightarrow> ((False, Some err), httpClient)
         | Inr req \<Rightarrow>
             (case Do httpClient req of
                (Inl err, c) \<Rightarrow> ((False, Some err), c)
              | (Inr resp, c) \<Rightarrow>
                  if StatusCode resp = 404 then ((False, None), c)
                  else if StatusCode resp > 299 then ((False, Some (HandleHTTPError e resp)), c)
                  else ((True, None), c)))"

subsection \<open>The file system\<close>

text \<open>
  A file has its bytes and its permission bits. The operating system holds the files by
  path, the umask of the process, the paths at which opening for writing fails (a missing
  directory, a directory, no permission) and the paths at which writing breaks after so
  many bytes (a full disk).
\<close>

record inode =
  content :: string
  mode :: "32 word"

record os =
  files :: "string \<Rightarrow> inode option"
  umask :: "32 word"
  open_error :: "string \<Rightarrow> string option"
  write_fault :: "string \<Rightarrow> (nat \<times> string) option"

text \<open>
  \<open>os.OpenFile(name, O_CREATE|O_WRONLY|O_TRUNC, perm)\<close>: a file that exists is emptied and
  keeps its mode; a file that does not exist is created empty with mode \<open>perm\<close> less the
  umask.
\<close>

definition OpenFile :: "os \<Rightarrow> string \<Rightarrow> 32 word \<Rightarrow> error + os" where
  "OpenFile s name perm =
     (case open_error s name of
        Some m \<Rightarrow> Inl (PathError m)
      | None \<Rightarrow>
          Inr (s\<lparr>files := (files s)(name \<mapsto>
                 (case files s name of
                    None \<Rightarrow> \<lparr>content = [], mode = perm AND NOT (umask s)\<rparr>
                  | Some f \<Rightarrow> f\<lparr>content := []\<rparr>))\<rparr>))"

definition Write :: "os \<Rightarrow> string \<Rightarrow> string \<Rightarrow> os" where
  "Write s name bs =
     (case files s name of
        None \<Rightarrow> s
      | Some f \<Rightarrow> s\<lparr>files := (files s)(name \<mapsto> f\<lparr>content := content f @ bs\<rparr>)\<rparr>)"

text \<open>
  \<open>io.Copy(f, resp.Body)\<close>: what the stream delivers is written to the file until the
  stream ends, the stream breaks or a write fails.
\<close>

definition io_Copy :: "os \<Rightarrow> string \<Rightarrow> response \<Rightarrow> error option \<times> os" where
  "io_Copy s name resp =
     (case write_fault s name of
        None \<Rightarrow> (map_option ReadError (BodyErr resp), Write s name (Body resp))
      | Some (n, m) \<Rightarrow>
          if n < length (Body resp) then (Some (WriteError m), Write s name (take n (Body resp)))
          else (map_option ReadError (BodyErr resp), Write s name (Body resp)))"

subsection \<open>downloadAsset\<close>

text \<open>The permission bits \<open>0755\<close> of the source are the number 493 (7 * 64 + 5 * 8 + 5).\<close>

definition downloadAsset ::
  "env \<Rightarrow> client \<Rightarrow> os \<Rightarrow> releaseAsset \<Rightarrow> string \<Rightarrow> error option \<times> client \<times> os" where
  "downloadAsset e httpClient s asset destPath =
     (case NewRequest e ''GET'' (APIURL asset) of
        Inl err \<Rightarrow> (Some err, httpClient, s)
      | Inr req0 \<Rightarrow>
          (let req = Header_Set req0 ''Accept'' ''application/octet-stream''
           in case Do httpClient req of
                (Inl err, c) \<Rightarrow> (Some err, c, s)
              | (Inr resp, c) \<Rightarrow>
                  if StatusCode resp > 299 then (Some (HandleHTTPError e resp), c, s)
                  else (case OpenFile s destPath 493 of
                          Inl err \<Rightarrow> (Some err, c, s)
                        | Inr s1 \<Rightarrow>
                            (case io_Copy s1 destPath resp of
                               (err, s2) \<Rightarrow> (err, c, s2)))))"

subsection \<open>Decoding a release (\<open>json.Unmarshal\<close> into the struct)\<close>

text \<open>
  A member of a JSON object goes to the struct field whose JSON name it has, or else to the
  first field whose name it matches under case folding (ASCII letters, and the two
  non-ASCII code points that fold to \<open>k\<close> and \<open>s\<close>, in UTF-8).
\<close>

definition upperASCII :: "char \<Rightarrow> char" where
  "upperASCII c =
     (if 97 \<le> (of_char c :: nat) \<and> (of_char c :: nat) \<le> 122
      then char_of ((of_char c :: nat) - 32) else c)"

fun foldName :: "string \<Rightarrow> string" where
  "foldName (a # b # c # cs) =
     (if a = CHR 0xE2 \<and> b = CHR 0x84 \<and> c = CHR 0xAA then CHR ''K'' # foldName cs
      else if a = CHR 0xC5 \<and> b = CHR 0xBF then CHR ''S'' # foldName (c # cs)
      else upperASCII a # foldName (b # c # cs))"
| "foldName [a, b] =
     (if a = CHR 0xC5 \<and> b = CHR 0xBF then [CHR ''S''] else [upperASCII a, upperASCII b])"
| "foldName [a] = [upperASCII a]"
| "foldName [] = []"

definition field_of :: "string list \<Rightarrow> string \<Rightarrow> string option" where
  "field_of names key =
     (if key \<in> set names then Some key
      else find (\<lambda>f. foldName f = foldName key) names)"

fun kind_of :: "json \<Rightarrow> string" where
  "kind_of JNull = ''null''"
| "kind_of (JBool _) = ''bool''"
| "kind_of (JNumber _) = ''number''"
| "kind_of (JString _) = ''string''"
| "kind_of (JArray _) = ''array''"
| "kind_of (JObject _) = ''object''"

text \<open>The decoder goes on after a value of the wrong type and reports the first one.\<close>

definition saveError :: "error option \<Rightarrow> error \<Rightarrow> error option" where
  "saveError saved err = (case saved of None \<Rightarrow> Some err | Some x \<Rightarrow> Some x)"

text \<open>Into a string field: a string is stored, \<open>null\<close> changes nothing.\<close>

fun store_string :: "string \<Rightarrow> json \<Rightarrow> error option \<Rightarrow> string \<times> error option" where
  "store_string old (JString s) saved = (s, saved)"
| "store_string old JNull saved = (old, saved)"
| "store_string old v saved = (old, saveError saved (UnmarshalTypeError (kind_of v)))"

text \<open>\<open>releaseAsset\<close>: field \<open>Name\<close> under its own name, \<open>APIURL\<close> under \<open>url\<close>.\<close>

definition asset_member ::
  "string \<times> json \<Rightarrow> releaseAsset \<times> error option \<Rightarrow> releaseAsset \<times> error option" where
  "asset_member kv st =
     (case (kv, st) of ((k, v), (a, saved)) \<Rightarrow>
        (case field_of [''Name'', ''url''] k of
           None \<Rightarrow> (a, saved)
         | Some f \<Rightarrow>
             if f = ''Name''
             then (case store_string (Name a) v saved of (x, sv) \<Rightarrow> (a\<lparr>Name := x\<rparr>, sv))
             else (case store_string (APIURL a) v saved of (x, sv) \<Rightarrow> (a\<lparr>APIURL := x\<rparr>, sv))))"

fun decode_asset :: "releaseAsset \<Rightarrow> json \<Rightarrow> error option \<Rightarrow> releaseAsset \<times> error option" where
  "decode_asset old (JObject kvs) saved = fold asset_member kvs (old, saved)"
| "decode_asset old JNull saved = (old, saved)"
| "decode_asset old v saved = (old, saveError saved (UnmarshalTypeError (kind_of v)))"

text \<open>
  Into a slice: element \<open>i\<close> of the array is decoded into what the slice's storage holds at
  \<open>i\<close> (the zero value where nothing was stored before). \<open>old\<close> is that storage: the
  slice followed by the elements left behind its length.
\<close>

fun decode_elems ::
  "releaseAsset list \<Rightarrow> json list \<Rightarrow> error option \<Rightarrow> releaseAsset list \<times> error option" where
  "decode_elems old [] saved = ([], saved)"
| "decode_elems old (v # vs) saved =
     (case decode_asset (case old of [] \<Rightarrow> \<lparr>Name = [], APIURL = []\<rparr> | x # _ \<Rightarrow> x) v saved of
        (a, sv) \<Rightarrow>
          (case decode_elems (tl old) vs sv of
             (as, sv') \<Rightarrow> (a # as, sv')))"

fun store_assets ::
  "releaseAsset list \<times> releaseAsset list \<Rightarrow> json \<Rightarrow> error option
     \<Rightarrow> (releaseAsset list \<times> releaseAsset list) \<times> error option" where
  "store_assets (vis, spare) (JArray vs) saved =
     (if vs = [] then (([], []), saved)
      else (case decode_elems (vis @ spare) vs saved of
              (as, sv) \<Rightarrow> ((as, drop (length vs) (vis @ spare)), sv)))"
| "store_assets (vis, spare) JNull saved = (([], []), saved)"
| "store_assets (vis, spare) v saved =
     ((vis, spare), saveError saved (UnmarshalTypeError (kind_of v)))"

text \<open>\<open>release\<close>: field \<open>Tag\<close> under \<open>tag_name\<close>, \<open>Assets\<close> under its own name.\<close>

definition release_member ::
  "string \<times> json \<Rightarrow> (release \<times> releaseAsset list) \<times> error option
     \<Rightarrow> (release \<times> releaseAsset list) \<times> error option" where
  "release_member kv st =
     (case (kv, st) of ((k, v), ((r, spare), saved)) \<Rightarrow>
        (case field_of [''tag_name'', ''Assets''] k of
           None \<Rightarrow> ((r, spare), saved)
         | Some f \<Rightarrow>
             if f = ''tag_name''
             then (case store_string (Tag r) v saved of (x, sv) \<Rightarrow> ((r\<lparr>Tag := x\<rparr>, spare), sv))
             else (case store_assets (Assets r, spare) v saved of
                     ((as, spare'), sv) \<Rightarrow> ((r\<lparr>Assets := as\<rparr>, spare'), sv))))"

text \<open>
  \<open>json.Unmarshal(b, &r)\<close>: a malformed document is refused before anything is stored;
  an object fills the fields, \<open>null\<close> changes nothing, any other value is of the wrong type.
\<close>

definition Unmarshal :: "env \<Rightarrow> string \<Rightarrow> release \<Rightarrow> release \<times> error option" where
  "Unmarshal e b r =
     (case json_parse e b of
        None \<Rightarrow> (r, Some SyntaxError)
      | Some (JObject kvs) \<Rightarrow>
          (case fold release_member kvs ((r, []), None) of ((r', _), err) \<Rightarrow> (r', err))
      | Some JNull \<Rightarrow> (r, None)
      | Some v \<Rightarrow> (r, Some (UnmarshalTypeError (kind_of v))))"

subsection \<open>fetchLatestRelease, fetchReleaseFromTag, fetchCommitSHA\<close>

definition fetchLatestRelease :: "env \<Rightarrow> client \<Rightarrow> repo \<Rightarrow> (error + release) \<times> client" where
  "fetchLatestRelease e httpClient baseRepo =
     (let path = ''repos/'' @ RepoOwner baseRepo @ ''/'' @ RepoName baseRepo @ ''/releases/latest'';
          url = RESTPrefix e (RepoHost baseRepo) @ path
      in case NewRequest e ''GET'' url of
           Inl err \<Rightarrow> (Inl err, httpClient)
         | Inr req \<Rightarrow>
             (case Do httpClient req of
                (Inl err, c) \<Rightarrow> (Inl err, c)
              | (Inr resp, c) \<Rightarrow>
                  if StatusCode resp > 299 then (Inl (HandleHTTPError e resp), c)
                  else (case ReadAll resp of
                          Inl err \<Rightarrow> (Inl err, c)
                        | Inr b \<Rightarrow>
                            (case Unmarshal e b \<lparr>Tag = [], Assets = []\<rparr> of
                               (r, Some err) \<Rightarrow> (Inl err, c)
                             | (r, None) \<Rightarrow> (Inr r, c)))))"

definition fetchReleaseFromTag ::
  "env \<Rightarrow> client \<Rightarrow> repo \<Rightarrow> string \<Rightarrow> (error + release) \<times> client" where
  "fetchReleaseFromTag e httpClient baseRepo tagName =
     (let fullRepoName = RepoOwner baseRepo @ ''/'' @ RepoName baseRepo;
          path = ''repos/'' @ fullRepoName @ ''/releases/tags/'' @ tagName;
          url = RESTPrefix e (RepoHost baseRepo) @ path
      in case NewRequest e ''GET'' url of
           Inl err \<Rightarrow> (Inl err, httpClient)
         | Inr req \<Rightarrow>
             (case Do httpClient req of
                (Inl err, c) \<Rightarrow> (Inl err, c)
              | (Inr resp, c) \<Rightarrow>
                  if StatusCode resp = 404 then (Inl releaseNotFoundErr, c)
                  else if StatusCode resp > 299 then (Inl (HandleHTTPError e resp), c)
                  else (case ReadAll resp of
                          Inl err \<Rightarrow> (Inl err, c)
                        | Inr b \<Rightarrow>
                            (case Unmarshal e b \<lparr>Tag = [], Assets = []\<rparr> of
                               (r, Some err) \<Rightarrow> (Inl err, c)
                             | (r, None) \<Rightarrow> (Inr r, c)))))"

definition fetchCommitSHA ::
  "env \<Rightarrow> client \<Rightarrow> repo \<Rightarrow> string \<Rightarrow> (string \<times> error option) \<times> client" where
  "fetchCommitSHA e httpClient baseRepo targetRef =
     (let path = ''repos/'' @ RepoOwner baseRepo @ ''/'' @ RepoName baseRepo @ ''/commits/'' @ targetRef;
          url = RESTPrefix e (RepoHost baseRepo) @ path
      in case NewRequest e ''GET'' url of
           Inl err \<Rightarrow> (([], Some err), httpClient)
         | Inr req0 \<Rightarrow>
             (let req = Header_Set req0 ''Accept'' ''application/vnd.github.VERSION.sha''
              in case Do httpClient req of
                   (Inl err, c) \<Rightarrow> (([], Some err), c)
                 | (Inr resp, c) \<Rightarrow>
                     if StatusCode resp = 422 then (([], Some commitNotFoundErr), c)
                     else if StatusCode resp > 299 then (([], Some (HandleHTTPError e resp)), c)
                     else (case ReadAll resp of
                             Inl err \<Rightarrow> (([], Some err), c)
                           | Inr body \<Rightarrow> ((body, None), c))))"

subsection \<open>The release document of the API, and sample inputs\<close>

text \<open>
  The JSON shape of a release: an object with the members \<open>tag_name\<close> (a string) and
  \<open>Assets\<close> (an array), each asset an object with the members \<open>Name\<close> and \<open>url\<close> (strings);
  the members of an object in either order.
\<close>

definition asset_object :: "string \<times> string \<Rightarrow> json \<Rightarrow> bool" where
  "asset_object nu v =
     (v = JObject [(''Name'', JString (fst nu)), (''url'', JString (snd nu))] \<or>
      v = JObject [(''url'', JString (snd nu)), (''Name'', JString (fst nu))])"

fun assets_array :: "(string \<times> string) list \<Rightarrow> json \<Rightarrow> bool" where
  "assets_array nus (JArray vs) = list_all2 asset_object nus vs"
| "assets_array nus v = False"

fun release_object :: "string \<Rightarrow> (string \<times> string) list \<Rightarrow> json \<Rightarrow> bool" where
  "release_object t nus (JObject [(k1, v1), (k2, v2)]) =
     ((k1 = ''tag_name'' \<and> v1 = JString t \<and> k2 = ''Assets'' \<and> assets_array nus v2) \<or>
      (k1 = ''Assets'' \<and> assets_array nus v1 \<and> k2 = ''tag_name'' \<and> v2 = JString t))"
| "release_object t nus v = False"

definition ex_body :: string where
  \<open>ex_body = ''{"tag_name":"v1","Assets":[{"Name":"a","url":"u"}]}''\<close>

definition ex_other :: string where
  \<open>ex_other = ''{"id":7,"name":"x"}''\<close>

definition ex_env :: env where
  "ex_env = \<lparr>RESTPrefix = (\<lambda>h. ''https://api.'' @ h @ ''/''),
             url_parse_error = (\<lambda>u. None),
             api_message = Body,
             json_parse = (\<lambda>b. if b = ''{}'' then Some (JObject [])
                                else if b = ''[]'' then Some (JArray [])
                                else if b = ex_other
                                then Some (JObject [(''id'', JNumber ''7''), (''name'', JString ''x'')])
                                else if b = ex_body
                                then Some (JObject [(''tag_name'', JString ''v1''),
                                        (''Assets'', JArray [JObject [(''Name'', JString ''a''),
                                                                      (''url'', JString ''u'')]])])
                                else None)\<rparr>"

definition ex_client :: "response \<Rightarrow> client" where
  "ex_client resp = \<lparr>RoundTrip = (\<lambda>req. Inr resp), sent = []\<rparr>"

definition ex_repo :: repo where
  "ex_repo = \<lparr>RepoHost = ''github.com'', RepoOwner = ''o'', RepoName = ''n''\<rparr>"

definition ex_os :: os where
  "ex_os = \<lparr>files = [''old'' \<mapsto> \<lparr>content = ''xyz'', mode = 420\<rparr>], umask = 18,
            open_error = (\<lambda>p. if p = ''/nodir/f'' then Some ''no such file or directory'' else None),
            write_fault = (\<lambda>p. None)\<rparr>"

section \<open>Properties\<close>

subsection \<open>Building and sending requests\<close>

lemma NewRequest_ok:
  "NewRequest e m u = Inr req \<Longrightarrow> req = \<lparr>Method = m, URL = u, Header = []\<rparr>"
  by (auto simp: NewRequest_def split: if_splits option.splits)

lemma sent_hasScript:
  "sent (snd (hasScript e c repo)) =
     (case NewRequest e ''GET'' (RESTPrefix e (RepoHost repo) @ ''repos/'' @ RepoOwner repo @ ''/''
             @ RepoName repo @ ''/contents/'' @ RepoName repo) of
        Inl err \<Rightarrow> sent c | Inr req \<Rightarrow> sent c @ [req])"
  by (simp add: hasScript_def Do_def split: sum.splits)

lemma sent_fetchLatestRelease:
  "sent (snd (fetchLatestRelease e c repo)) =
     (case NewRequest e ''GET'' (RESTPrefix e (RepoHost repo) @ ''repos/'' @ RepoOwner repo @ ''/''
             @ RepoName repo @ ''/releases/latest'') of
        Inl err \<Rightarrow> sent c | Inr req \<Rightarrow> sent c @ [req])"
  by (simp add: fetchLatestRelease_def Do_def split: sum.splits option.splits prod.splits)

lemma sent_fetchReleaseFromTag:
  "sent (snd (fetchReleaseFromTag e c repo t)) =
     (case NewRequest e ''GET'' (RESTPrefix e (RepoHost repo) @ ''repos/'' @ RepoOwner repo @ ''/''
             @ RepoName repo @ ''/releases/tags/'' @ t) of
        Inl err \<Rightarrow> sent c | Inr req \<Rightarrow> sent c @ [req])"
  by (simp add: fetchReleaseFromTag_def Do_def split: sum.splits option.splits prod.splits)

lemma sent_fetchCommitSHA:
  "sent (snd (fetchCommitSHA e c repo r)) =
     (case NewRequest e ''GET'' (RESTPrefix e (RepoHost repo) @ ''repos/'' @ RepoOwner repo @ ''/''
             @ RepoName repo @ ''/commits/'' @ r) of
        Inl err \<Rightarrow> sent c
      | Inr req \<Rightarrow> sent c @ [Header_Set req ''Accept'' ''application/vnd.github.VERSION.sha''])"
  by (simp add: fetchCommitSHA_def Do_def Let_def split: sum.splits option.splits prod.splits)

lemma sent_downloadAsset:
  "sent (fst (snd (downloadAsset e c s asset dest))) =
     (case NewRequest e ''GET'' (APIURL asset) of
        Inl err \<Rightarrow> sent c
      | Inr req \<Rightarrow> sent c @ [Header_Set req ''Accept'' ''application/octet-stream''])"
  by (simp add: downloadAsset_def Do_def Let_def split: sum.splits option.splits prod.splits)

subsection \<open>Decoding\<close>

lemma decode_asset_object:
  "asset_object nu v \<Longrightarrow> decode_asset old v saved = (\<lparr>Name = fst nu, APIURL = snd nu\<rparr>, saved)"
  by (auto simp: asset_object_def asset_member_def field_of_def)

lemma decode_elems_objects:
  "list_all2 asset_object nus vs \<Longrightarrow>
   decode_elems old vs saved = (map (\<lambda>nu. \<lparr>Name = fst nu, APIURL = snd nu\<rparr>) nus, saved)"
proof (induction nus vs arbitrary: old rule: list_all2_induct)
  case Nil
  show ?case by simp
next
  case (Cons nu nus v vs)
  then show ?case by (simp add: decode_asset_object)
qed

lemma store_assets_array:
  "assets_array nus v \<Longrightarrow>
   store_assets ([], []) v saved = ((map (\<lambda>nu. \<lparr>Name = fst nu, APIURL = snd nu\<rparr>) nus, []), saved)"
  by (cases v) (auto simp: decode_elems_objects)

lemma release_object_cases:
  assumes "release_object t nus d"
  obtains v where "assets_array nus v" "d = JObject [(''tag_name'', JString t), (''Assets'', v)]"
        | v where "assets_array nus v" "d = JObject [(''Assets'', v), (''tag_name'', JString t)]"
  using assms by (auto elim!: release_object.elims)

lemma Unmarshal_release_object:
  assumes "json_parse e b = Some d" and "release_object t nus d"
  shows "Unmarshal e b \<lparr>Tag = [], Assets = []\<rparr> =
           (\<lparr>Tag = t, Assets = map (\<lambda>nu. \<lparr>Name = fst nu, APIURL = snd nu\<rparr>) nus\<rparr>, None)"
  using assms(2)
proof (cases rule: release_object_cases)
  case (1 v)
  then show ?thesis using assms(1)
    by (simp add: Unmarshal_def release_member_def field_of_def store_assets_array)
next
  case (2 v)
  then show ?thesis using assms(1)
    by (simp add: Unmarshal_def release_member_def field_of_def store_assets_array)
qed

lemma fold_release_member_unmatched:
  "list_all (\<lambda>kv. field_of [''tag_name'', ''Assets''] (fst kv) = None) kvs \<Longrightarrow>
   fold release_member kvs st = st"
  by (induction kvs arbitrary: st) (auto simp: release_member_def split: prod.splits)

lemma Unmarshal_unmatched:
  "json_parse e b = Some (JObject kvs) \<Longrightarrow>
   list_all (\<lambda>kv. field_of [''tag_name'', ''Assets''] (fst kv) = None) kvs \<Longrightarrow>
   Unmarshal e b r = (r, None)"
  by (simp add: Unmarshal_def fold_release_member_unmatched)

lemma Unmarshal_malformed: "json_parse e b = None \<Longrightarrow> Unmarshal e b r = (r, Some SyntaxError)"
  by (simp add: Unmarshal_def)

lemma Unmarshal_null: "json_parse e b = Some JNull \<Longrightarrow> Unmarshal e b r = (r, None)"
  by (simp add: Unmarshal_def)

subsection \<open>The existence check\<close>

text \<open>
  Claim C1. Whatever the repository, when the response to the request of \<open>hasScript\<close> has
  status 404 the result is (false, nil), whatever the body holds; when the status is any of
  200 to 299 the result is (true, nil).
\<close>

theorem hasScript_status:
  assumes "NewRequest e ''GET'' (RESTPrefix e (RepoHost repo) @ ''repos/'' @ RepoOwner repo @ ''/''
             @ RepoName repo @ ''/contents/'' @ RepoName repo) = Inr req"
      and "RoundTrip c req = Inr resp"
  shows "(StatusCode resp = 404 \<longrightarrow> fst (hasScript e c repo) = (False, None)) \<and>
         (200 \<le> StatusCode resp \<and> StatusCode resp \<le> 299 \<longrightarrow>
            fst (hasScript e c repo) = (True, None))"
  using assms by (simp add: hasScript_def Do_def)

theorem hasScript_status_witness:
  "fst (hasScript ex_env (ex_client \<lparr>StatusCode = 404, Body = ''junk'', BodyErr = None\<rparr>) ex_repo)
     = (False, None) \<and>
   fst (hasScript ex_env (ex_client \<lparr>StatusCode = 204, Body = [], BodyErr = None\<rparr>) ex_repo)
     = (True, None)"
  using hasScript_status [of ex_env ex_repo
           "\<lparr>Method = ''GET'', URL = ''https://api.github.com/repos/o/n/contents/n'', Header = []\<rparr>"
           "ex_client \<lparr>StatusCode = 404, Body = ''junk'', BodyErr = None\<rparr>"
           "\<lparr>StatusCode = 404, Body = ''junk'', BodyErr = None\<rparr>"]
        hasScript_status [of ex_env ex_repo
           "\<lparr>Method = ''GET'', URL = ''https://api.github.com/repos/o/n/contents/n'', Header = []\<rparr>"
           "ex_client \<lparr>StatusCode = 204, Body = [], BodyErr = None\<rparr>"
           "\<lparr>StatusCode = 204, Body = [], BodyErr = None\<rparr>"]
  by (simp add: NewRequest_def ex_env_def isCTL_def ex_client_def ex_repo_def)

text \<open>
  Claim C2, as the code has it. The claim gives an error for every status that is neither
  404 nor 200 to 299; the code tests \<open>StatusCode > 299\<close>, so a status below 200 (a
  101 answer, say) passes for success: the file exists, no error.
\<close>

theorem hasScript_101_counterexample:
  "StatusCode \<lparr>StatusCode = 101, Body = [], BodyErr = None\<rparr> \<noteq> 404 \<and>
   \<not> (200 \<le> StatusCode \<lparr>StatusCode = 101, Body = [], BodyErr = None\<rparr> \<and>
      StatusCode \<lparr>StatusCode = 101, Body = [], BodyErr = None\<rparr> \<le> 299) \<and>
   fst (hasScript ex_env (ex_client \<lparr>StatusCode = 101, Body = [], BodyErr = None\<rparr>) ex_repo) = (True, None)"
  by (simp add: hasScript_def NewRequest_def Do_def ex_env_def isCTL_def ex_client_def ex_repo_def)

text \<open>
  Claim C2, amended. For every response whose status is above 299 and is not 404,
  \<open>hasScript\<close> returns false together with the translated API error of that response.
\<close>

theorem hasScript_error_status:
  assumes "NewRequest e ''GET'' (RESTPrefix e (RepoHost repo) @ ''repos/'' @ RepoOwner repo @ ''/''
             @ RepoName repo @ ''/contents/'' @ RepoName repo) = Inr req"
      and "RoundTrip c req = Inr resp"
      and "StatusCode resp \<noteq> 404" and "StatusCode resp > 299"
  shows "fst (hasScript e c repo) = (False, Some (HandleHTTPError e resp))"
  using assms by (simp add: hasScript_def Do_def)

theorem hasScript_error_status_witness:
  "fst (hasScript ex_env (ex_client \<lparr>StatusCode = 500, Body = ''oops'', BodyErr = None\<rparr>) ex_repo)
     = (False, Some (HTTPError 500 ''oops''))"
  using hasScript_error_status [of ex_env ex_repo
           "\<lparr>Method = ''GET'', URL = ''https://api.github.com/repos/o/n/contents/n'', Header = []\<rparr>"
           "ex_client \<lparr>StatusCode = 500, Body = ''oops'', BodyErr = None\<rparr>"
           "\<lparr>StatusCode = 500, Body = ''oops'', BodyErr = None\<rparr>"]
  by (simp add: NewRequest_def ex_env_def isCTL_def ex_client_def ex_repo_def HandleHTTPError_def)

subsection \<open>Releases and commits\<close>

text \<open>
  Claim C3. When the response to the request of \<open>fetchReleaseFromTag\<close> has status 404
  the result is no release and the sentinel \<open>releaseNotFoundErr\<close>, one constant whatever
  the repository and the tag, and different from every translated API error; when the
  status is 200 and the body is a release document, the result is the release with the tag
  and the assets of the document, in order.
\<close>

theorem fetchReleaseFromTag_404_200:
  assumes "NewRequest e ''GET'' (RESTPrefix e (RepoHost repo) @ ''repos/'' @ RepoOwner repo @ ''/''
             @ RepoName repo @ ''/releases/tags/'' @ tagName) = Inr req"
      and "RoundTrip c req = Inr resp"
  shows "(StatusCode resp = 404 \<longrightarrow>
            fst (fetchReleaseFromTag e c repo tagName) = Inl releaseNotFoundErr \<and>
            releaseNotFoundErr \<noteq> HandleHTTPError e' resp') \<and>
         (StatusCode resp = 200 \<and> BodyErr resp = None \<and>
          json_parse e (Body resp) = Some d \<and> release_object t nus d \<longrightarrow>
            fst (fetchReleaseFromTag e c repo tagName) =
              Inr \<lparr>Tag = t, Assets = map (\<lambda>nu. \<lparr>Name = fst nu, APIURL = snd nu\<rparr>) nus\<rparr>)"
proof -
  have dec: "Unmarshal e (Body resp) \<lparr>Tag = [], Assets = []\<rparr> =
               (\<lparr>Tag = t, Assets = map (\<lambda>nu. \<lparr>Name = fst nu, APIURL = snd nu\<rparr>) nus\<rparr>, None)"
    if "json_parse e (Body resp) = Some d" and "release_object t nus d"
    using that by (rule Unmarshal_release_object)
  show ?thesis
    using assms dec
    by (simp add: fetchReleaseFromTag_def Do_def ReadAll_def HandleHTTPError_def)
qed

theorem fetchReleaseFromTag_404_200_witness:
  "fst (fetchReleaseFromTag ex_env (ex_client \<lparr>StatusCode = 404, Body = ''{}'', BodyErr = None\<rparr>) ex_repo ''v1'')
     = Inl releaseNotFoundErr \<and>
   fst (fetchReleaseFromTag ex_env (ex_client \<lparr>StatusCode = 200, Body = ex_body, BodyErr = None\<rparr>) ex_repo ''v1'')
     = Inr \<lparr>Tag = ''v1'', Assets = [\<lparr>Name = ''a'', APIURL = ''u''\<rparr>]\<rparr>"
  using fetchReleaseFromTag_404_200 [where e = ex_env and repo = ex_repo and tagName = "''v1''"
          and req = "\<lparr>Method = ''GET'', URL = ''https://api.github.com/repos/o/n/releases/tags/v1'', Header = []\<rparr>"
          and c = "ex_client \<lparr>StatusCode = 404, Body = ''{}'', BodyErr = None\<rparr>"
          and resp = "\<lparr>StatusCode = 404, Body = ''{}'', BodyErr = None\<rparr>"]
        fetchReleaseFromTag_404_200 [where e = ex_env and repo = ex_repo and tagName = "''v1''"
          and req = "\<lparr>Method = ''GET'', URL = ''https://api.github.com/repos/o/n/releases/tags/v1'', Header = []\<rparr>"
          and c = "ex_client \<lparr>StatusCode = 200, Body = ex_body, BodyErr = None\<rparr>"
          and resp = "\<lparr>StatusCode = 200, Body = ex_body, BodyErr = None\<rparr>"
          and t = "''v1''" and nus = "[(''a'', ''u'')]"
          and d = "JObject [(''tag_name'', JString ''v1''),
                              (''Assets'', JArray [JObject [(''Name'', JString ''a''), (''url'', JString ''u'')]])]"]
  by (simp add: NewRequest_def ex_env_def isCTL_def ex_client_def ex_repo_def ex_body_def ex_other_def
      asset_object_def)

text \<open>
  Claim C4. When the response to the request of \<open>fetchCommitSHA\<close> has status 422 the
  result is the empty string and the sentinel \<open>commitNotFoundErr\<close>; when the status is 200
  the result is the body as it was read, byte for byte, and a nil error.
\<close>

theorem fetchCommitSHA_422_200:
  assumes "NewRequest e ''GET'' (RESTPrefix e (RepoHost repo) @ ''repos/'' @ RepoOwner repo @ ''/''
             @ RepoName repo @ ''/commits/'' @ targetRef) = Inr req"
      and "RoundTrip c (Header_Set req ''Accept'' ''application/vnd.github.VERSION.sha'') = Inr resp"
  shows "(StatusCode resp = 422 \<longrightarrow>
            fst (fetchCommitSHA e c repo targetRef) = ([], Some commitNotFoundErr)) \<and>
         (StatusCode resp = 200 \<and> BodyErr resp = None \<longrightarrow>
            fst (fetchCommitSHA e c repo targetRef) = (Body resp, None))"
  using assms by (simp add: fetchCommitSHA_def Do_def ReadAll_def)

theorem fetchCommitSHA_422_200_witness:
  "fst (fetchCommitSHA ex_env (ex_client \<lparr>StatusCode = 422, Body = ''no'', BodyErr = None\<rparr>) ex_repo ''main'')
     = ([], Some commitNotFoundErr) \<and>
   fst (fetchCommitSHA ex_env (ex_client \<lparr>StatusCode = 200, Body = '' abc12  '', BodyErr = None\<rparr>) ex_repo ''main'')
     = ('' abc12  '', None)"
  using fetchCommitSHA_422_200 [of ex_env ex_repo "''main''"
           "\<lparr>Method = ''GET'', URL = ''https://api.github.com/repos/o/n/commits/main'', Header = []\<rparr>"
           "ex_client \<lparr>StatusCode = 422, Body = ''no'', BodyErr = None\<rparr>"
           "\<lparr>StatusCode = 422, Body = ''no'', BodyErr = None\<rparr>"]
        fetchCommitSHA_422_200 [of ex_env ex_repo "''main''"
           "\<lparr>Method = ''GET'', URL = ''https://api.github.com/repos/o/n/commits/main'', Header = []\<rparr>"
           "ex_client \<lparr>StatusCode = 200, Body = '' abc12  '', BodyErr = None\<rparr>"
           "\<lparr>StatusCode = 200, Body = '' abc12  '', BodyErr = None\<rparr>"]
  by (simp add: NewRequest_def ex_env_def isCTL_def ex_client_def ex_repo_def)

text \<open>
  Claim C8. For a response of \<open>fetchLatestRelease\<close> with a status of 200 to 299: when the
  body is a release document with tag \<open>t\<close> and assets of names and URLs \<open>nus\<close>, the result
  is the release with that tag and those assets in order; when the body is not well-formed
  JSON, the result is no release and the decoder's syntax error.
\<close>

theorem fetchLatestRelease_decode:
  assumes "NewRequest e ''GET'' (RESTPrefix e (RepoHost repo) @ ''repos/'' @ RepoOwner repo @ ''/''
             @ RepoName repo @ ''/releases/latest'') = Inr req"
      and "RoundTrip c req = Inr resp"
      and "200 \<le> StatusCode resp" and "StatusCode resp \<le> 299" and "BodyErr resp = None"
  shows "(json_parse e (Body resp) = Some d \<and> release_object t nus d \<longrightarrow>
            fst (fetchLatestRelease e c repo) =
              Inr \<lparr>Tag = t, Assets = map (\<lambda>nu. \<lparr>Name = fst nu, APIURL = snd nu\<rparr>) nus\<rparr>) \<and>
         (json_parse e (Body resp) = None \<longrightarrow>
            fst (fetchLatestRelease e c repo) = Inl SyntaxError)"
proof -
  have dec: "Unmarshal e (Body resp) \<lparr>Tag = [], Assets = []\<rparr> =
               (\<lparr>Tag = t, Assets = map (\<lambda>nu. \<lparr>Name = fst nu, APIURL = snd nu\<rparr>) nus\<rparr>, None)"
    if "json_parse e (Body resp) = Some d" and "release_object t nus d"
    using that by (rule Unmarshal_release_object)
  show ?thesis
    using assms dec
    by (simp add: fetchLatestRelease_def Do_def ReadAll_def Unmarshal_malformed)
qed

theorem fetchLatestRelease_decode_witness:
  "fst (fetchLatestRelease ex_env (ex_client \<lparr>StatusCode = 200, Body = ex_body, BodyErr = None\<rparr>) ex_repo)
     = Inr \<lparr>Tag = ''v1'', Assets = [\<lparr>Name = ''a'', APIURL = ''u''\<rparr>]\<rparr> \<and>
   fst (fetchLatestRelease ex_env (ex_client \<lparr>StatusCode = 201, Body = ''{'', BodyErr = None\<rparr>) ex_repo)
     = Inl SyntaxError"
  using fetchLatestRelease_decode [where e = ex_env and repo = ex_repo
          and req = "\<lparr>Method = ''GET'', URL = ''https://api.github.com/repos/o/n/releases/latest'', Header = []\<rparr>"
          and c = "ex_client \<lparr>StatusCode = 200, Body = ex_body, BodyErr = None\<rparr>"
          and resp = "\<lparr>StatusCode = 200, Body = ex_body, BodyErr = None\<rparr>"
          and t = "''v1''" and nus = "[(''a'', ''u'')]"
          and d = "JObject [(''tag_name'', JString ''v1''),
                              (''Assets'', JArray [JObject [(''Name'', JString ''a''), (''url'', JString ''u'')]])]"]
        fetchLatestRelease_decode [where e = ex_env and repo = ex_repo
          and req = "\<lparr>Method = ''GET'', URL = ''https://api.github.com/repos/o/n/releases/latest'', Header = []\<rparr>"
          and c = "ex_client \<lparr>StatusCode = 201, Body = ''{'', BodyErr = None\<rparr>"
          and resp = "\<lparr>StatusCode = 201, Body = ''{'', BodyErr = None\<rparr>"]
  by (simp add: NewRequest_def ex_env_def isCTL_def ex_client_def ex_repo_def ex_body_def ex_other_def
      asset_object_def)

text \<open>
  Claim C10, as the code has it. The claim covers every well-formed body that lacks the
  release fields; a body that is well-formed JSON but neither an object nor \<open>null\<close> (the
  array \<open>[]\<close>, say) is a value of the wrong type for the struct, and both functions return
  the decoder's type error and no release.
\<close>

theorem fetch_release_array_counterexample:
  "json_parse ex_env ''[]'' = Some (JArray []) \<and>
   fst (fetchLatestRelease ex_env (ex_client \<lparr>StatusCode = 200, Body = ''[]'', BodyErr = None\<rparr>) ex_repo)
     = Inl (UnmarshalTypeError ''array'') \<and>
   fst (fetchReleaseFromTag ex_env (ex_client \<lparr>StatusCode = 200, Body = ''[]'', BodyErr = None\<rparr>) ex_repo ''v1'')
     = Inl (UnmarshalTypeError ''array'')"
  by (simp add: fetchLatestRelease_def fetchReleaseFromTag_def NewRequest_def Do_def ReadAll_def
      Unmarshal_def ex_env_def isCTL_def ex_client_def ex_repo_def)

text \<open>
  Claim C10, amended. For a response with a status of 200 to 299 whose body is
  \<open>null\<close> or a JSON object none of whose members goes to a field of the release, that is,
  whose name neither is nor folds to \<open>tag_name\<close> or \<open>Assets\<close> (the object \<open>{}\<close>, say),
  \<open>fetchLatestRelease\<close> and \<open>fetchReleaseFromTag\<close> both succeed with a nil error and the
  release of empty tag and no assets: nothing rejects a missing \<open>tag_name\<close> or \<open>Assets\<close>.
\<close>

theorem fetch_release_missing_fields:
  assumes "200 \<le> StatusCode resp" and "StatusCode resp \<le> 299" and "BodyErr resp = None"
      and "json_parse e (Body resp) = Some JNull \<or>
           (json_parse e (Body resp) = Some (JObject kvs) \<and>
            list_all (\<lambda>kv. field_of [''tag_name'', ''Assets''] (fst kv) = None) kvs)"
  shows "(NewRequest e ''GET'' (RESTPrefix e (RepoHost repo) @ ''repos/'' @ RepoOwner repo @ ''/''
             @ RepoName repo @ ''/releases/latest'') = Inr req \<and> RoundTrip c req = Inr resp \<longrightarrow>
            fst (fetchLatestRelease e c repo) = Inr \<lparr>Tag = [], Assets = []\<rparr>) \<and>
         (NewRequest e ''GET'' (RESTPrefix e (RepoHost repo) @ ''repos/'' @ RepoOwner repo @ ''/''
             @ RepoName repo @ ''/releases/tags/'' @ tagName) = Inr req' \<and> RoundTrip c req' = Inr resp \<longrightarrow>
            fst (fetchReleaseFromTag e c repo tagName) = Inr \<lparr>Tag = [], Assets = []\<rparr>)"
proof -
  have dec: "Unmarshal e (Body resp) \<lparr>Tag = [], Assets = []\<rparr> = (\<lparr>Tag = [], Assets = []\<rparr>, None)"
    using assms(4) by (auto simp: Unmarshal_null Unmarshal_unmatched)
  show ?thesis
    using assms(1-3)
    by (simp add: fetchLatestRelease_def fetchReleaseFromTag_def Do_def ReadAll_def dec)
qed

theorem fetch_release_missing_fields_witness:
  "json_parse ex_env ex_other = Some (JObject [(''id'', JNumber ''7''), (''name'', JString ''x'')]) \<and>
   fst (fetchLatestRelease ex_env (ex_client \<lparr>StatusCode = 200, Body = ex_other, BodyErr = None\<rparr>) ex_repo)
     = Inr \<lparr>Tag = [], Assets = []\<rparr> \<and>
   fst (fetchReleaseFromTag ex_env (ex_client \<lparr>StatusCode = 200, Body = ex_other, BodyErr = None\<rparr>) ex_repo ''v1'')
     = Inr \<lparr>Tag = [], Assets = []\<rparr> \<and>
   fst (fetchLatestRelease ex_env (ex_client \<lparr>StatusCode = 200, Body = ''{}'', BodyErr = None\<rparr>) ex_repo)
     = Inr \<lparr>Tag = [], Assets = []\<rparr>"
  using fetch_release_missing_fields [where resp = "\<lparr>StatusCode = 200, Body = ex_other, BodyErr = None\<rparr>"
          and c = "ex_client \<lparr>StatusCode = 200, Body = ex_other, BodyErr = None\<rparr>"
          and e = ex_env and repo = ex_repo
          and kvs = "[(''id'', JNumber ''7''), (''name'', JString ''x'')]" and tagName = "''v1''"
          and req = "\<lparr>Method = ''GET'', URL = ''https://api.github.com/repos/o/n/releases/latest'', Header = []\<rparr>"
          and req' = "\<lparr>Method = ''GET'', URL = ''https://api.github.com/repos/o/n/releases/tags/v1'', Header = []\<rparr>"]
        fetch_release_missing_fields [where resp = "\<lparr>StatusCode = 200, Body = ''{}'', BodyErr = None\<rparr>"
          and c = "ex_client \<lparr>StatusCode = 200, Body = ''{}'', BodyErr = None\<rparr>"
          and e = ex_env and repo = ex_repo and kvs = "[]" and tagName = "''v1''"
          and req = "\<lparr>Method = ''GET'', URL = ''https://api.github.com/repos/o/n/releases/latest'', Header = []\<rparr>"
          and req' = "\<lparr>Method = ''GET'', URL = ''https://api.github.com/repos/o/n/releases/tags/v1'', Header = []\<rparr>"]
  by (simp add: NewRequest_def ex_env_def isCTL_def ex_client_def ex_repo_def ex_other_def ex_body_def
      field_of_def upperASCII_def)

subsection \<open>The URL of each request\<close>

text \<open>
  Claim C5, as the code has it. The claim has every operation issue its request for every
  repository, tag and ref; a URL that \<open>http.NewRequest\<close> refuses (here a tag with a line
  feed in it) makes the operation return that error with no request issued.
\<close>

theorem tag_request_counterexample:
  "sent (snd (fetchReleaseFromTag ex_env (ex_client \<lparr>StatusCode = 200, Body = ex_body, BodyErr = None\<rparr>)
                ex_repo [CHR ''v'', CHR 0x0A])) = [] \<and>
   fst (fetchReleaseFromTag ex_env (ex_client \<lparr>StatusCode = 200, Body = ex_body, BodyErr = None\<rparr>)
                ex_repo [CHR ''v'', CHR 0x0A]) = Inl (URLError ''net/url: invalid control character in URL'')"
  by (simp add: fetchReleaseFromTag_def NewRequest_def ex_env_def isCTL_def ex_client_def ex_repo_def)

lemma hasScript_refused:
  "NewRequest e ''GET'' (RESTPrefix e (RepoHost repo) @ ''repos/'' @ RepoOwner repo @ ''/''
       @ RepoName repo @ ''/contents/'' @ RepoName repo) = Inl err \<Longrightarrow>
   hasScript e c repo = ((False, Some err), c)"
  by (simp add: hasScript_def)

lemma fetchLatestRelease_refused:
  "NewRequest e ''GET'' (RESTPrefix e (RepoHost repo) @ ''repos/'' @ RepoOwner repo @ ''/''
       @ RepoName repo @ ''/releases/latest'') = Inl err \<Longrightarrow>
   fetchLatestRelease e c repo = (Inl err, c)"
  by (simp add: fetchLatestRelease_def)

lemma fetchReleaseFromTag_refused:
  "NewRequest e ''GET'' (RESTPrefix e (RepoHost repo) @ ''repos/'' @ RepoOwner repo @ ''/''
       @ RepoName repo @ ''/releases/tags/'' @ t) = Inl err \<Longrightarrow>
   fetchReleaseFromTag e c repo t = (Inl err, c)"
  by (simp add: fetchReleaseFromTag_def)

lemma fetchCommitSHA_refused:
  "NewRequest e ''GET'' (RESTPrefix e (RepoHost repo) @ ''repos/'' @ RepoOwner repo @ ''/''
       @ RepoName repo @ ''/commits/'' @ r) = Inl err \<Longrightarrow>
   fetchCommitSHA e c repo r = (([], Some err), c)"
  by (simp add: fetchCommitSHA_def)

lemma downloadAsset_refused:
  "NewRequest e ''GET'' (APIURL asset) = Inl err \<Longrightarrow>
   downloadAsset e c s asset dest = (Some err, c, s)"
  by (simp add: downloadAsset_def)

text \<open>
  Claim C5, amended. When \<open>http.NewRequest\<close> refuses its URL, each of the five operations
  returns that error and nothing else, with no request issued and the client (and, for the
  download, the file system) as it was. Otherwise it issues exactly one request: a GET whose
  URL is the REST prefix of the host followed by \<open>repos/o/n/contents/n\<close> (existence check),
  \<open>repos/o/n/releases/latest\<close> (latest release), \<open>repos/o/n/releases/tags/t\<close> (release by
  tag), \<open>repos/o/n/commits/r\<close> (commit SHA), or the asset's own API URL (download).
\<close>

theorem requests_issued:
  "(case NewRequest e ''GET'' (RESTPrefix e (RepoHost repo) @ ''repos/'' @ RepoOwner repo @ ''/''
            @ RepoName repo @ ''/contents/'' @ RepoName repo) of
      Inl err \<Rightarrow> hasScript e c repo = ((False, Some err), c)
    | Inr req \<Rightarrow> sent (snd (hasScript e c repo)) = sent c @
        [\<lparr>Method = ''GET'',
          URL = RESTPrefix e (RepoHost repo) @ ''repos/'' @ RepoOwner repo @ ''/'' @ RepoName repo
                  @ ''/contents/'' @ RepoName repo,
          Header = []\<rparr>]) \<and>
   (case NewRequest e ''GET'' (RESTPrefix e (RepoHost repo) @ ''repos/'' @ RepoOwner repo @ ''/''
            @ RepoName repo @ ''/releases/latest'') of
      Inl err \<Rightarrow> fetchLatestRelease e c repo = (Inl err, c)
    | Inr req \<Rightarrow> sent (snd (fetchLatestRelease e c repo)) = sent c @
        [\<lparr>Method = ''GET'',
          URL = RESTPrefix e (RepoHost repo) @ ''repos/'' @ RepoOwner repo @ ''/'' @ RepoName repo
                  @ ''/releases/latest'',
          Header = []\<rparr>]) \<and>
   (case NewRequest e ''GET'' (RESTPrefix e (RepoHost repo) @ ''repos/'' @ RepoOwner repo @ ''/''
            @ RepoName repo @ ''/releases/tags/'' @ t) of
      Inl err \<Rightarrow> fetchReleaseFromTag e c repo t = (Inl err, c)
    | Inr req \<Rightarrow> sent (snd (fetchReleaseFromTag e c repo t)) = sent c @
        [\<lparr>Method = ''GET'',
          URL = RESTPrefix e (RepoHost repo) @ ''repos/'' @ RepoOwner repo @ ''/'' @ RepoName repo
                  @ ''/releases/tags/'' @ t,
          Header = []\<rparr>]) \<and>
   (case NewRequest e ''GET'' (RESTPrefix e (RepoHost repo) @ ''repos/'' @ RepoOwner repo @ ''/''
            @ RepoName repo @ ''/commits/'' @ r) of
      Inl err \<Rightarrow> fetchCommitSHA e c repo r = (([], Some err), c)
    | Inr req \<Rightarrow> sent (snd (fetchCommitSHA e c repo r)) = sent c @
        [\<lparr>Method = ''GET'',
          URL = RESTPrefix e (RepoHost repo) @ ''repos/'' @ RepoOwner repo @ ''/'' @ RepoName repo
                  @ ''/commits/'' @ r,
          Header = [(''Accept'', ''application/vnd.github.VERSION.sha'')]\<rparr>]) \<and>
   (case NewRequest e ''GET'' (APIURL asset) of
      Inl err \<Rightarrow> downloadAsset e c s asset dest = (Some err, c, s)
    | Inr req \<Rightarrow> sent (fst (snd (downloadAsset e c s asset dest))) = sent c @
        [\<lparr>Method = ''GET'', URL = APIURL asset,
          Header = [(''Accept'', ''application/octet-stream'')]\<rparr>])"
proof -
  have hdr: "\<And>m u req k v. NewRequest e m u = Inr req \<Longrightarrow>
               Header_Set req k v = \<lparr>Method = m, URL = u, Header = [(k, v)]\<rparr>"
    by (auto simp: Header_Set_def dest: NewRequest_ok)
  have new: "\<And>m u req. NewRequest e m u = Inr req \<Longrightarrow> req = \<lparr>Method = m, URL = u, Header = []\<rparr>"
    by (rule NewRequest_ok)
  show ?thesis
    by (auto split: sum.splits
        simp: hasScript_refused fetchLatestRelease_refused fetchReleaseFromTag_refused
          fetchCommitSHA_refused downloadAsset_refused
          sent_hasScript sent_fetchLatestRelease sent_fetchReleaseFromTag
          sent_fetchCommitSHA sent_downloadAsset
        dest: new hdr)
qed

theorem requests_issued_witness:
  "sent (snd (hasScript ex_env (ex_client \<lparr>StatusCode = 200, Body = [], BodyErr = None\<rparr>) ex_repo)) =
     [\<lparr>Method = ''GET'', URL = ''https://api.github.com/repos/o/n/contents/n'', Header = []\<rparr>] \<and>
   sent (snd (fetchLatestRelease ex_env (ex_client \<lparr>StatusCode = 200, Body = [], BodyErr = None\<rparr>) ex_repo)) =
     [\<lparr>Method = ''GET'', URL = ''https://api.github.com/repos/o/n/releases/latest'', Header = []\<rparr>] \<and>
   sent (snd (fetchReleaseFromTag ex_env (ex_client \<lparr>StatusCode = 200, Body = [], BodyErr = None\<rparr>) ex_repo ''v1'')) =
     [\<lparr>Method = ''GET'', URL = ''https://api.github.com/repos/o/n/releases/tags/v1'', Header = []\<rparr>] \<and>
   sent (snd (fetchCommitSHA ex_env (ex_client \<lparr>StatusCode = 200, Body = [], BodyErr = None\<rparr>) ex_repo ''main'')) =
     [\<lparr>Method = ''GET'', URL = ''https://api.github.com/repos/o/n/commits/main'',
       Header = [(''Accept'', ''application/vnd.github.VERSION.sha'')]\<rparr>] \<and>
   sent (fst (snd (downloadAsset ex_env (ex_client \<lparr>StatusCode = 200, Body = [], BodyErr = None\<rparr>) ex_os
           \<lparr>Name = ''a'', APIURL = ''https://api.github.com/assets/1''\<rparr> ''new''))) =
     [\<lparr>Method = ''GET'', URL = ''https://api.github.com/assets/1'',
       Header = [(''Accept'', ''application/octet-stream'')]\<rparr>] \<and>
   fetchReleaseFromTag ex_env (ex_client \<lparr>StatusCode = 200, Body = [], BodyErr = None\<rparr>) ex_repo
           [CHR ''v'', CHR 0x0A] =
     (Inl (URLError ''net/url: invalid control character in URL''),
      ex_client \<lparr>StatusCode = 200, Body = [], BodyErr = None\<rparr>) \<and>
   sent (snd (fetchCommitSHA ex_env (ex_client \<lparr>StatusCode = 200, Body = [], BodyErr = None\<rparr>) ex_repo
           [CHR ''v'', CHR ''#'', CHR 0x0A])) =
     [\<lparr>Method = ''GET'', URL = ''https://api.github.com/repos/o/n/commits/v#'' @ [CHR 0x0A],
       Header = [(''Accept'', ''application/vnd.github.VERSION.sha'')]\<rparr>]"
  using requests_issued [where e = ex_env and repo = ex_repo
          and c = "ex_client \<lparr>StatusCode = 200, Body = [], BodyErr = None\<rparr>"
          and t = "''v1''" and r = "''main''"
          and asset = "\<lparr>Name = ''a'', APIURL = ''https://api.github.com/assets/1''\<rparr>"
          and s = ex_os and dest = "''new''"]
        requests_issued [where e = ex_env and repo = ex_repo
          and c = "ex_client \<lparr>StatusCode = 200, Body = [], BodyErr = None\<rparr>"
          and t = "[CHR ''v'', CHR 0x0A]" and r = "[CHR ''v'', CHR ''#'', CHR 0x0A]"
          and asset = "\<lparr>Name = ''a'', APIURL = ''https://api.github.com/assets/1''\<rparr>"
          and s = ex_os and dest = "''new''"]
  by (simp add: NewRequest_def ex_env_def isCTL_def ex_client_def ex_repo_def)

subsection \<open>Downloading an asset\<close>

lemma Header_Set_new:
  "NewRequest e m u = Inr req \<Longrightarrow> Header_Set req k v = \<lparr>Method = m, URL = u, Header = [(k, v)]\<rparr>"
  by (auto simp: Header_Set_def dest: NewRequest_ok)

lemma OpenFile_fails: "open_error s p = Some m \<Longrightarrow> OpenFile s p perm = Inl (PathError m)"
  by (simp add: OpenFile_def)

lemma inode_update_content: "f\<lparr>content := bs\<rparr> = \<lparr>content = bs, mode = mode f\<rparr>"
  by (cases f) simp

lemma OpenFile_ok:
  "open_error s p = None \<Longrightarrow>
   OpenFile s p perm =
     Inr (s\<lparr>files := (files s)(p \<mapsto> \<lparr>content = [],
            mode = (case files s p of None \<Rightarrow> perm AND NOT (umask s) | Some f \<Rightarrow> mode f)\<rparr>)\<rparr>)"
  by (simp add: OpenFile_def inode_update_content split: option.splits)

lemma io_Copy_complete:
  "files s p = Some \<lparr>content = [], mode = md\<rparr> \<Longrightarrow> write_fault s p = None \<Longrightarrow> BodyErr resp = None \<Longrightarrow>
   io_Copy s p resp = (None, s\<lparr>files := (files s)(p \<mapsto> \<lparr>content = Body resp, mode = md\<rparr>)\<rparr>)"
  by (simp add: io_Copy_def Write_def)

text \<open>
  Claim C6, as the code has it. The claim gives a translated API error for every status
  outside 200 to 299 and a destination of mode 0755; with status 101 the code goes on to
  write the file and returns nil, and a destination that exists is emptied and keeps the
  mode it had (here 0644).
\<close>

theorem downloadAsset_mode_counterexample:
  "files (snd (snd (downloadAsset ex_env (ex_client \<lparr>StatusCode = 200, Body = ''bin'', BodyErr = None\<rparr>)
                      ex_os \<lparr>Name = ''a'', APIURL = ''https://api.github.com/assets/1''\<rparr> ''old''))) ''old''
     = Some \<lparr>content = ''bin'', mode = 420\<rparr> \<and> (420 :: 32 word) \<noteq> 493 \<and>
   fst (downloadAsset ex_env (ex_client \<lparr>StatusCode = 101, Body = ''bin'', BodyErr = None\<rparr>)
                      ex_os \<lparr>Name = ''a'', APIURL = ''https://api.github.com/assets/1''\<rparr> ''old'') = None"
  by (simp add: downloadAsset_def NewRequest_def Do_def Let_def Header_Set_def OpenFile_def io_Copy_def
      Write_def ex_env_def isCTL_def ex_client_def ex_os_def)

text \<open>
  Claim C6, amended. When its URL is accepted, \<open>downloadAsset\<close> sends one GET to the
  asset's API URL with the header \<open>Accept: application/octet-stream\<close>. A response of status
  above 299 gives the translated API error. A response of status at most 299, when the
  destination can be opened and the copy is not interrupted, gives a nil error and leaves
  the destination holding exactly the bytes of the body: a destination that did not exist
  is created with mode 0755 less the umask, one that existed keeps its mode; no other file
  changes.
\<close>

theorem downloadAsset_effect:
  assumes "NewRequest e ''GET'' (APIURL asset) = Inr req"
      and "RoundTrip c \<lparr>Method = ''GET'', URL = APIURL asset,
                        Header = [(''Accept'', ''application/octet-stream'')]\<rparr> = Inr resp"
  shows "sent (fst (snd (downloadAsset e c s asset destPath))) = sent c @
           [\<lparr>Method = ''GET'', URL = APIURL asset, Header = [(''Accept'', ''application/octet-stream'')]\<rparr>] \<and>
         (StatusCode resp > 299 \<longrightarrow>
            fst (downloadAsset e c s asset destPath) = Some (HandleHTTPError e resp)) \<and>
         (StatusCode resp \<le> 299 \<and> open_error s destPath = None \<and>
          BodyErr resp = None \<and> write_fault s destPath = None \<longrightarrow>
            fst (downloadAsset e c s asset destPath) = None \<and>
            snd (snd (downloadAsset e c s asset destPath)) =
              s\<lparr>files := (files s)(destPath \<mapsto>
                   \<lparr>content = Body resp,
                    mode = (case files s destPath of
                              None \<Rightarrow> 493 AND NOT (umask s)
                            | Some f \<Rightarrow> mode f)\<rparr>)\<rparr>)"
proof -
  let ?get = "\<lparr>Method = ''GET'', URL = APIURL asset,
                Header = [(''Accept'', ''application/octet-stream'')]\<rparr>"
  have hs: "Header_Set req ''Accept'' ''application/octet-stream'' = ?get"
    using assms(1) by (rule Header_Set_new)
  have log: "sent (fst (snd (downloadAsset e c s asset destPath))) = sent c @ [?get]"
    by (simp add: sent_downloadAsset assms(1) hs)
  have err: "StatusCode resp > 299 \<longrightarrow>
               fst (downloadAsset e c s asset destPath) = Some (HandleHTTPError e resp)"
    using assms by (simp add: downloadAsset_def Let_def hs Do_def)
  have ok: "StatusCode resp \<le> 299 \<and> open_error s destPath = None \<and>
            BodyErr resp = None \<and> write_fault s destPath = None \<longrightarrow>
              fst (downloadAsset e c s asset destPath) = None \<and>
              snd (snd (downloadAsset e c s asset destPath)) =
                s\<lparr>files := (files s)(destPath \<mapsto>
                     \<lparr>content = Body resp,
                      mode = (case files s destPath of
                                None \<Rightarrow> 493 AND NOT (umask s)
                              | Some f \<Rightarrow> mode f)\<rparr>)\<rparr>"
    using assms by (simp add: downloadAsset_def Let_def hs Do_def OpenFile_ok io_Copy_complete)
  from log err ok show ?thesis by blast
qed

theorem downloadAsset_effect_witness:
  "fst (downloadAsset ex_env (ex_client \<lparr>StatusCode = 200, Body = ''bin'', BodyErr = None\<rparr>) ex_os
               \<lparr>Name = ''a'', APIURL = ''https://api.github.com/assets/1''\<rparr> ''new'') = None \<and>
   files (snd (snd (downloadAsset ex_env (ex_client \<lparr>StatusCode = 200, Body = ''bin'', BodyErr = None\<rparr>) ex_os
               \<lparr>Name = ''a'', APIURL = ''https://api.github.com/assets/1''\<rparr> ''new''))) ''new''
     = Some \<lparr>content = ''bin'', mode = 493\<rparr> \<and>
   fst (downloadAsset ex_env (ex_client \<lparr>StatusCode = 404, Body = ''no'', BodyErr = None\<rparr>) ex_os
               \<lparr>Name = ''a'', APIURL = ''https://api.github.com/assets/1''\<rparr> ''new'')
     = Some (HTTPError 404 ''no'')"
  using downloadAsset_effect [where s = ex_os and destPath = "''new''" and e = ex_env
          and c = "ex_client \<lparr>StatusCode = 200, Body = ''bin'', BodyErr = None\<rparr>"
          and asset = "\<lparr>Name = ''a'', APIURL = ''https://api.github.com/assets/1''\<rparr>"
          and req = "\<lparr>Method = ''GET'', URL = ''https://api.github.com/assets/1'', Header = []\<rparr>"
          and resp = "\<lparr>StatusCode = 200, Body = ''bin'', BodyErr = None\<rparr>"]
     downloadAsset_effect [where s = ex_os and destPath = "''new''" and e = ex_env
          and c = "ex_client \<lparr>StatusCode = 404, Body = ''no'', BodyErr = None\<rparr>"
          and asset = "\<lparr>Name = ''a'', APIURL = ''https://api.github.com/assets/1''\<rparr>"
          and req = "\<lparr>Method = ''GET'', URL = ''https://api.github.com/assets/1'', Header = []\<rparr>"
          and resp = "\<lparr>StatusCode = 404, Body = ''no'', BodyErr = None\<rparr>"]
  by (simp add: NewRequest_def ex_env_def isCTL_def ex_client_def ex_os_def HandleHTTPError_def)

text \<open>
  Claim C7. When the destination cannot be opened, \<open>downloadAsset\<close> leaves the file
  system exactly as it was, and if the response arrived with a status of at most 299 (so
  that the open is attempted) it returns the error of the open.
\<close>

theorem downloadAsset_open_fails:
  assumes "open_error s destPath = Some m"
  shows "snd (snd (downloadAsset e c s asset destPath)) = s \<and>
         (NewRequest e ''GET'' (APIURL asset) = Inr req \<and>
          RoundTrip c (Header_Set req ''Accept'' ''application/octet-stream'') = Inr resp \<and>
          StatusCode resp \<le> 299 \<longrightarrow>
            fst (downloadAsset e c s asset destPath) = Some (PathError m))"
  using assms
  by (auto simp: downloadAsset_def Do_def Let_def OpenFile_fails split: sum.splits)

theorem downloadAsset_open_fails_witness:
  "open_error ex_os ''/nodir/f'' = Some ''no such file or directory'' \<and>
   snd (snd (downloadAsset ex_env (ex_client \<lparr>StatusCode = 200, Body = ''bin'', BodyErr = None\<rparr>) ex_os
               \<lparr>Name = ''a'', APIURL = ''https://api.github.com/assets/1''\<rparr> ''/nodir/f'')) = ex_os \<and>
   fst (downloadAsset ex_env (ex_client \<lparr>StatusCode = 200, Body = ''bin'', BodyErr = None\<rparr>) ex_os
               \<lparr>Name = ''a'', APIURL = ''https://api.github.com/assets/1''\<rparr> ''/nodir/f'')
     = Some (PathError ''no such file or directory'')"
  using downloadAsset_open_fails [where s = ex_os and destPath = "''/nodir/f''"
          and m = "''no such file or directory''" and e = ex_env
          and c = "ex_client \<lparr>StatusCode = 200, Body = ''bin'', BodyErr = None\<rparr>"
          and asset = "\<lparr>Name = ''a'', APIURL = ''https://api.github.com/assets/1''\<rparr>"
          and req = "\<lparr>Method = ''GET'', URL = ''https://api.github.com/assets/1'', Header = []\<rparr>"
          and resp = "\<lparr>StatusCode = 200, Body = ''bin'', BodyErr = None\<rparr>"]
  by (simp add: NewRequest_def ex_env_def isCTL_def ex_client_def ex_os_def)

text \<open>
  Claim C9, as the code has it. The claim leaves the file system alone for every status
  outside 200 to 299; with status 101 the destination is created and written.
\<close>

theorem downloadAsset_101_counterexample:
  "\<not> (200 \<le> StatusCode \<lparr>StatusCode = 101, Body = ''bin'', BodyErr = None\<rparr> \<and>
      StatusCode \<lparr>StatusCode = 101, Body = ''bin'', BodyErr = None\<rparr> \<le> 299) \<and>
   files ex_os ''new'' = None \<and>
   files (snd (snd (downloadAsset ex_env (ex_client \<lparr>StatusCode = 101, Body = ''bin'', BodyErr = None\<rparr>)
                      ex_os \<lparr>Name = ''a'', APIURL = ''https://api.github.com/assets/1''\<rparr> ''new''))) ''new''
     = Some \<lparr>content = ''bin'', mode = 493\<rparr>"
  by (simp add: downloadAsset_def NewRequest_def Do_def Let_def Header_Set_def OpenFile_def io_Copy_def
      Write_def ex_env_def isCTL_def ex_client_def ex_os_def)

text \<open>
  Claim C9, amended. The status is tested before the destination is opened: for every
  response of status above 299 \<open>downloadAsset\<close> returns the translated API error and the
  file system is unchanged, and whenever it returns a translated API error the file system
  is unchanged.
\<close>

theorem downloadAsset_error_status_frame:
  "(NewRequest e ''GET'' (APIURL asset) = Inr req \<and>
    RoundTrip c (Header_Set req ''Accept'' ''application/octet-stream'') = Inr resp \<and>
    StatusCode resp > 299 \<longrightarrow>
      fst (downloadAsset e c s asset destPath) = Some (HandleHTTPError e resp) \<and>
      snd (snd (downloadAsset e c s asset destPath)) = s) \<and>
   (fst (downloadAsset e c s asset destPath) = Some (HTTPError code msg) \<longrightarrow>
      snd (snd (downloadAsset e c s asset destPath)) = s)"
  by (auto simp: downloadAsset_def Do_def Let_def HandleHTTPError_def io_Copy_def
      split: sum.splits option.splits prod.splits if_splits)

theorem downloadAsset_error_status_frame_witness:
  "fst (downloadAsset ex_env (ex_client \<lparr>StatusCode = 500, Body = ''oops'', BodyErr = None\<rparr>) ex_os
               \<lparr>Name = ''a'', APIURL = ''https://api.github.com/assets/1''\<rparr> ''old'')
     = Some (HTTPError 500 ''oops'') \<and>
   snd (snd (downloadAsset ex_env (ex_client \<lparr>StatusCode = 500, Body = ''oops'', BodyErr = None\<rparr>) ex_os
               \<lparr>Name = ''a'', APIURL = ''https://api.github.com/assets/1''\<rparr> ''old'')) = ex_os"
  using downloadAsset_error_status_frame [where s = ex_os and destPath = "''old''" and e = ex_env
          and c = "ex_client \<lparr>StatusCode = 500, Body = ''oops'', BodyErr = None\<rparr>"
          and asset = "\<lparr>Name = ''a'', APIURL = ''https://api.github.com/assets/1''\<rparr>"
          and req = "\<lparr>Method = ''GET'', URL = ''https://api.github.com/assets/1'', Header = []\<rparr>"
          and resp = "\<lparr>StatusCode = 500, Body = ''oops'', BodyErr = None\<rparr>"]
  by (simp add: NewRequest_def ex_env_def isCTL_def ex_client_def HandleHTTPError_def)

end
